theory Spec2Isabelle
  imports Main "HOL-Library.Word"
begin

unbundle bit_operations_syntax

section \<open>CAN driver API (middleware/CANopenNode/port/can.h)\<close>

text \<open>
  The header is embedded function by function.  The fixed-width C integers are words:
  \<open>uint8_t\<close> is \<open>8 word\<close>, \<open>uint16_t\<close> is \<open>16 word\<close>, \<open>uint32_t\<close> and
  \<open>unsigned int\<close> / \<open>unsigned long\<close> (32 bits on the RISC-V targets of this SDK) are
  \<open>32 word\<close>.
\<close>

type_synonym u8 = "8 word"
type_synonym u16 = "16 word"
type_synonym u32 = "32 word"

subsection \<open>Macros\<close>

text \<open>\<^verbatim>\<open>#define BIT(n) (1UL << (n))\<close>\<close>

definition BIT :: "nat \<Rightarrow> u32" where
  "BIT n = push_bit n 1"

text \<open>\<^verbatim>\<open>#define CAN_FRAME_IDE BIT(0)\<close>\<close>

definition CAN_FRAME_IDE :: u32 where
  "CAN_FRAME_IDE = BIT 0"

text \<open>\<^verbatim>\<open>#define CAN_FILTER_IDE BIT(0)\<close>\<close>

definition CAN_FILTER_IDE :: u32 where
  "CAN_FILTER_IDE = BIT 0"

text \<open>
  Modelled from the spec: the macro \<open>MIN\<close> is used by \<open>can_dlc_to_bytes\<close> but defined
  in no file of the sources.  It is the smaller of its two arguments, compared as
  unsigned values.
\<close>

definition MIN_macro :: "nat \<Rightarrow> nat \<Rightarrow> nat" where
  "MIN_macro a b = (if a < b then a else b)"

text \<open>
  Modelled from the spec: the macro \<open>ARRAY_SIZE\<close> is used by \<open>can_dlc_to_bytes\<close> but
  defined in no file of the sources.  It is the number of elements of an array.
\<close>

definition ARRAY_SIZE :: "'a list \<Rightarrow> nat" where
  "ARRAY_SIZE xs = length xs"

subsection \<open>Frames and filters\<close>

text \<open>\<open>struct can_frame\<close>: the payload union is kept as its byte view.\<close>

record can_frame =
  frame_id :: u32
  frame_dlc :: u8
  frame_flags :: u8
  frame_reserved :: u16
  frame_data :: "u8 list"

text \<open>\<open>struct can_filter\<close>\<close>

record can_filter =
  filter_id :: u32
  filter_mask :: u32
  filter_flags :: u8

text \<open>
  \<open>can_frame_matches_filter\<close>: three early returns, in the order of the source.  The
  \<open>uint8_t\<close> flags are widened to the type of \<open>BIT(0)\<close> before the bitwise and.
\<close>

definition can_frame_matches_filter :: "can_frame \<Rightarrow> can_filter \<Rightarrow> bool" where
  "can_frame_matches_filter frame flt =
     (if (ucast (frame_flags frame) AND CAN_FRAME_IDE) \<noteq> 0
          \<and> (ucast (filter_flags flt) AND CAN_FILTER_IDE) = 0 then False
      else if (ucast (frame_flags frame) AND CAN_FRAME_IDE) = 0
          \<and> (ucast (filter_flags flt) AND CAN_FILTER_IDE) \<noteq> 0 then False
      else if ((frame_id frame XOR filter_id flt) AND filter_mask flt) \<noteq> 0 then False
      else True)"

subsection \<open>Data length code\<close>

text \<open>The static table of \<open>can_dlc_to_bytes\<close>.\<close>

definition dlc_table :: "u8 list" where
  "dlc_table = [0, 1, 2, 3, 4, 5, 6, 7, 8, 12, 16, 20, 24, 32, 48, 64]"

text \<open>
  \<open>can_dlc_to_bytes\<close>: \<^verbatim>\<open>return dlc_table[MIN(dlc, ARRAY_SIZE(dlc_table) - 1)];\<close>
  An index past the end of the table would be a read out of bounds in C; the model
  returns \<open>None\<close> there, so that totality is a property to prove.
\<close>

definition dlc_index :: "u8 \<Rightarrow> nat" where
  "dlc_index dlc = MIN_macro (unat dlc) (ARRAY_SIZE dlc_table - 1)"

definition dlc_lookup :: "u8 \<Rightarrow> u8 option" where
  "dlc_lookup dlc =
     (if dlc_index dlc < ARRAY_SIZE dlc_table then Some (dlc_table ! dlc_index dlc) else None)"

definition can_dlc_to_bytes :: "u8 \<Rightarrow> u8" where
  "can_dlc_to_bytes dlc = dlc_table ! dlc_index dlc"

text \<open>\<open>can_bytes_to_dlc\<close>: the chain of conditional expressions of the source.\<close>

definition can_bytes_to_dlc :: "u8 \<Rightarrow> u8" where
  "can_bytes_to_dlc num_bytes =
     (if num_bytes \<le> 8 then num_bytes
      else if num_bytes \<le> 12 then 9
      else if num_bytes \<le> 16 then 10
      else if num_bytes \<le> 20 then 11
      else if num_bytes \<le> 24 then 12
      else if num_bytes \<le> 32 then 13
      else if num_bytes \<le> 48 then 14
      else 15)"

subsection \<open>Bus timing\<close>

text \<open>\<open>struct can_timing\<close>\<close>

record can_timing =
  sjw :: u16
  prop_seg :: u16
  phase_seg1 :: u16
  phase_seg2 :: u16
  prescaler :: u16





subsection \<open>Driver API and device\<close>

text \<open>
  \<open>struct can_driver_api\<close>, restricted to the members read by the functions embedded
  here.  A function pointer that may be \<open>NULL\<close> is an option.  The callbacks receive
  the device; its driver-private part is the type parameter.  A C \<open>int\<close> result is an
  \<open>int\<close>: no arithmetic is done on it.
\<close>

record 'h can_driver_api =
  get_core_clock :: "'h \<Rightarrow> int \<times> u32"
  get_max_filters :: "('h \<Rightarrow> bool \<Rightarrow> int) option"
  timing_min :: can_timing
  timing_max :: can_timing

record 'h device =
  dev_data :: 'h
  dev_api :: "'h can_driver_api"

text \<open>\<open>can_get_max_filters\<close>\<close>

definition can_get_max_filters :: "'h device \<Rightarrow> bool \<Rightarrow> int" where
  "can_get_max_filters dev ide =
     (case get_max_filters (dev_api dev) of
        None \<Rightarrow> - 1
      | Some f \<Rightarrow> f (dev_data dev) ide)"

text \<open>
  The documented return values of \<open>can_get_max_filters\<close>: a positive number of filters,
  \<open>-1\<close> if the function is not implemented by the driver, any other value a
  negative error code of the driver.
\<close>

datatype max_filters_result = Count nat | NotImplemented | DriverError int

definition max_filters_retval :: "int \<Rightarrow> max_filters_result" where
  "max_filters_retval r =
     (if 0 < r then Count (nat r) else if r = - 1 then NotImplemented else DriverError r)"

subsection \<open>Timing calculation\<close>

text \<open>\<open>can_get_core_clock\<close>: the driver's return code and the rate it stores.\<close>

definition can_get_core_clock :: "'h device \<Rightarrow> int \<times> u32" where
  "can_get_core_clock dev = get_core_clock (dev_api dev) (dev_data dev)"

text \<open>\<open>can_get_timing_min\<close>\<close>

definition can_get_timing_min :: "'h device \<Rightarrow> can_timing" where
  "can_get_timing_min dev = timing_min (dev_api dev)"

text \<open>\<open>can_get_timing_max\<close>\<close>

definition can_get_timing_max :: "'h device \<Rightarrow> can_timing" where
  "can_get_timing_max dev = timing_max (dev_api dev)"

text \<open>
  Modelled from the spec: the error kinds of the timing calculator, whose functions
  have no body in the sources: invalid-argument, unsupported and unavailable
  (\<open>-EINVAL\<close>, \<open>-ENOTSUP\<close> and \<open>-EIO\<close> in the header's comments).
\<close>

datatype timing_error = InvalidArgument | Unsupported | Unavailable

text \<open>
  Modelled from the spec: \<open>can_calc_timing\<close> is declared in \<open>can.h\<close>, its body is in
  no file of the sources.  The definitions below follow section 4.1 of the spec.

  The default sample point: 750 for a bitrate above 800 kbit/s, 800 for a bitrate
  above 500 kbit/s, else 875.
\<close>

definition default_sample_point :: "nat \<Rightarrow> nat" where
  "default_sample_point bitrate =
     (if 800000 < bitrate then 750 else if 500000 < bitrate then 800 else 875)"

text \<open>
  A candidate of the search is a prescaler with a segment split,
  \<open>(prescaler, prop_seg, phase_seg1, phase_seg2)\<close>.
\<close>

type_synonym timing_candidate = "nat \<times> nat \<times> nat \<times> nat"

text \<open>
  Modelled from the spec: a prescaler and a number of time quanta per bit have the
  exact bitrate when \<open>core_clock / (prescaler * total_segments)\<close> divides evenly and
  equals the requested bitrate (the body of \<open>can_calc_timing\<close> is missing from the
  sources).
\<close>

definition exact_bitrate :: "nat \<Rightarrow> nat \<Rightarrow> nat \<Rightarrow> nat \<Rightarrow> bool" where
  "exact_bitrate core_clock bitrate p tq =
     (p * tq \<noteq> 0 \<and> core_clock mod (p * tq) = 0 \<and> core_clock div (p * tq) = bitrate)"

text \<open>
  Modelled from the spec: the search space, every prescaler and segment split within
  the supplied bounds, filtered by the exact bitrate.
\<close>

definition timing_candidates ::
    "nat \<Rightarrow> can_timing \<Rightarrow> can_timing \<Rightarrow> nat \<Rightarrow> timing_candidate list" where
  "timing_candidates core_clock mn mx bitrate =
     [(p, a, b, c).
        p \<leftarrow> [unat (prescaler mn) ..< Suc (unat (prescaler mx))],
        a \<leftarrow> [unat (prop_seg mn) ..< Suc (unat (prop_seg mx))],
        b \<leftarrow> [unat (phase_seg1 mn) ..< Suc (unat (phase_seg1 mx))],
        c \<leftarrow> [unat (phase_seg2 mn) ..< Suc (unat (phase_seg2 mx))],
        exact_bitrate core_clock bitrate p (1 + a + b + c)]"

text \<open>
  Modelled from the spec: the sample point of a split in permille,
  \<open>(1 + prop_seg + phase_seg1) / (1 + prop_seg + phase_seg1 + phase_seg2)\<close>.
\<close>

definition sample_point_of :: "timing_candidate \<Rightarrow> nat" where
  "sample_point_of cand =
     (case cand of (p, a, b, c) \<Rightarrow> (1 + a + b) * 1000 div (1 + a + b + c))"

text \<open>
  Modelled from the spec: the signed deviation, in permille, of the sample point of a
  split from the requested sample point.
\<close>

definition sample_point_deviation :: "nat \<Rightarrow> timing_candidate \<Rightarrow> int" where
  "sample_point_deviation sp cand = int (sample_point_of cand) - int sp"

text \<open>
  Modelled from the spec: among the exact-bitrate candidates, the one whose sample
  point is closest to the requested one (the first such in the order of the search).
\<close>

fun closest_candidate ::
    "nat \<Rightarrow> timing_candidate \<Rightarrow> timing_candidate list \<Rightarrow> timing_candidate" where
  "closest_candidate sp best [] = best"
| "closest_candidate sp best (c # cs) =
     closest_candidate sp
       (if \<bar>sample_point_deviation sp c\<bar> < \<bar>sample_point_deviation sp best\<bar> then c else best)
       cs"

text \<open>Modelled from the spec: a range is malformed when a minimum exceeds its maximum.\<close>

definition timing_ranges_ok :: "can_timing \<Rightarrow> can_timing \<Rightarrow> bool" where
  "timing_ranges_ok mn mx =
     (sjw mn \<le> sjw mx \<and> prop_seg mn \<le> prop_seg mx \<and> phase_seg1 mn \<le> phase_seg1 mx
      \<and> phase_seg2 mn \<le> phase_seg2 mx \<and> prescaler mn \<le> prescaler mx)"

text \<open>
  Modelled from the spec: \<open>can_calc_timing\<close>, using the controller's clock and bounds
  (through the accessors of the header).  Failures: invalid-argument for a zero
  bitrate or malformed ranges, unavailable when the core clock cannot be read,
  unsupported when no candidate has the exact bitrate.  On success the segments and
  the prescaler of \<open>res\<close> are filled in and the signed sample point deviation is
  returned with it.
\<close>

definition can_calc_timing ::
    "'h device \<Rightarrow> can_timing \<Rightarrow> u32 \<Rightarrow> u16 \<Rightarrow> timing_error + can_timing \<times> int" where
  "can_calc_timing dev res bitrate sample_pnt =
     (if bitrate = 0 then Inl InvalidArgument
      else if timing_ranges_ok (can_get_timing_min dev) (can_get_timing_max dev) then
        (case can_get_core_clock dev of
           (ret, core_clock) \<Rightarrow>
             if ret \<noteq> 0 then Inl Unavailable
             else
               let sp = (if sample_pnt = 0 then default_sample_point (unat bitrate)
                         else unat sample_pnt)
               in case timing_candidates (unat core_clock)
                         (can_get_timing_min dev) (can_get_timing_max dev) (unat bitrate) of
                    [] \<Rightarrow> Inl Unsupported
                  | cand # cands \<Rightarrow>
                      (case closest_candidate sp cand cands of
                         (p, a, b, c) \<Rightarrow>
                           Inr (res\<lparr>prop_seg := of_nat a, phase_seg1 := of_nat b,
                                    phase_seg2 := of_nat c, prescaler := of_nat p\<rparr>,
                                sample_point_deviation sp (p, a, b, c))))
      else Inl InvalidArgument)"

text \<open>
  Modelled from the spec: \<open>can_calc_prescaler\<close> is declared in \<open>can.h\<close>, its body is in
  no file of the sources.  The segments are given; the prescaler is the core clock
  divided by the bitrate times the number of time quanta of a bit, and the returned
  bitrate error is the remainder of that division.  It fails only when the core clock
  cannot be read or the bitrate is zero.
\<close>

definition can_calc_prescaler ::
    "'h device \<Rightarrow> can_timing \<Rightarrow> u32 \<Rightarrow> timing_error + can_timing \<times> int" where
  "can_calc_prescaler dev timing bitrate =
     (case can_get_core_clock dev of
        (ret, core_clock) \<Rightarrow>
          if ret \<noteq> 0 then Inl Unavailable
          else if bitrate = 0 then Inl InvalidArgument
          else
            let ts = 1 + unat (prop_seg timing) + unat (phase_seg1 timing)
                       + unat (phase_seg2 timing)
            in Inr (timing\<lparr>prescaler := of_nat (unat core_clock div (unat bitrate * ts))\<rparr>,
                    int (unat core_clock mod (unat bitrate * ts))))"

subsection \<open>An example controller\<close>

text \<open>
  A controller with an 8 MHz core clock and small timing bounds, on which the
  functions above can be evaluated; \<open>example_dev\<close> takes the driver's optional
  \<open>get_max_filters\<close>.
\<close>

definition example_timing_min :: can_timing where
  "example_timing_min =
     \<lparr>sjw = 1, prop_seg = 6, phase_seg1 = 5, phase_seg2 = 2, prescaler = 1\<rparr>"

definition example_timing_max :: can_timing where
  "example_timing_max =
     \<lparr>sjw = 4, prop_seg = 8, phase_seg1 = 6, phase_seg2 = 3, prescaler = 2\<rparr>"

definition example_dev :: "(unit \<Rightarrow> bool \<Rightarrow> int) option \<Rightarrow> unit device" where
  "example_dev gmf =
     \<lparr>dev_data = (),
      dev_api = \<lparr>get_core_clock = (\<lambda>_. (0, 8000000)), get_max_filters = gmf,
                 timing_min = example_timing_min, timing_max = example_timing_max\<rparr>\<rparr>"

section \<open>Properties\<close>

subsection \<open>Auxiliary facts\<close>

lemma ide_flag_bit: "((ucast (w::u8) :: u32) AND BIT 0 \<noteq> 0) = bit w 0"
proof -
  have "(ucast w :: u32) AND 1 = ucast (w AND 1)"
    by (simp add: unsigned_and_eq)
  moreover have "w AND 1 = of_bool (odd w)"
    by (simp add: and_one_eq mod_2_eq_odd)
  ultimately have "(ucast w :: u32) AND 1 = of_bool (odd w)"
    by simp
  then show ?thesis by (simp add: BIT_def bit_0)
qed

lemma dlc_index_min: "dlc_index dlc = min (unat dlc) 15"
  by (simp add: dlc_index_def MIN_macro_def ARRAY_SIZE_def dlc_table_def min_def)

lemma u8_le_15_cases:
  assumes "(dlc::u8) \<le> 15"
  shows "dlc \<in> {0, 1, 2, 3, 4, 5, 6, 7, 8, 9, 10, 11, 12, 13, 14, 15}"
proof -
  from assms have "unat dlc \<le> 15" by (simp add: word_le_nat_alt)
  then have "unat dlc \<in> {0, 1, 2, 3, 4, 5, 6, 7, 8, 9, 10, 11, 12, 13, 14, 15}"
    by (simp; arith)
  then have "of_nat (unat dlc) \<in> {0, 1, 2, 3, 4, 5, 6, 7, 8, 9, 10, 11, 12, 13, 14, 15 :: u8}"
    by (elim insertE emptyE) simp_all
  then show ?thesis by simp
qed

lemmas dlc_defs =
  can_bytes_to_dlc_def can_dlc_to_bytes_def dlc_index_def MIN_macro_def ARRAY_SIZE_def
  dlc_table_def




lemma closest_candidate_mem: "closest_candidate sp best cs \<in> set (best # cs)"
  by (induction cs arbitrary: best) auto

lemma timing_candidates_iff:
  "(p, a, b, c) \<in> set (timing_candidates clk mn mx br) \<longleftrightarrow>
     unat (prescaler mn) \<le> p \<and> p \<le> unat (prescaler mx)
     \<and> unat (prop_seg mn) \<le> a \<and> a \<le> unat (prop_seg mx)
     \<and> unat (phase_seg1 mn) \<le> b \<and> b \<le> unat (phase_seg1 mx)
     \<and> unat (phase_seg2 mn) \<le> c \<and> c \<le> unat (phase_seg2 mx)
     \<and> exact_bitrate clk br p (1 + a + b + c)"
  by (auto simp add: timing_candidates_def)

lemma exact_bitrate_iff:
  assumes "0 < clk"
  shows "exact_bitrate clk br p tq \<longleftrightarrow> clk = br * p * tq"
proof
  assume "exact_bitrate clk br p tq"
  then have "p * tq \<noteq> 0" "clk mod (p * tq) = 0" "clk div (p * tq) = br"
    by (simp_all add: exact_bitrate_def)
  then have "clk = br * (p * tq)"
    by (metis div_mult_mod_eq add.right_neutral)
  then show "clk = br * p * tq" by (simp add: mult.assoc)
next
  assume eq: "clk = br * p * tq"
  with assms have "p * tq \<noteq> 0" by (cases "p * tq = 0") auto
  with eq show "exact_bitrate clk br p tq"
    by (simp add: exact_bitrate_def mult.assoc)
qed

lemma of_nat_u16_bounded:
  assumes "a \<le> unat (x::u16)"
  shows "unat (of_nat a :: u16) = a"
proof -
  have "unat x < 2 ^ 16" using unsigned_less [of x] by simp
  with assms have "a < 2 ^ 16" by simp
  then show ?thesis by (simp add: unat_of_nat)
qed

lemma example_candidates_500k:
  "timing_candidates 8000000 example_timing_min example_timing_max 500000
   = [(1, 6, 6, 3), (1, 7, 5, 3), (1, 7, 6, 2), (1, 8, 5, 2)]"
  by (simp add: timing_candidates_def example_timing_min_def example_timing_max_def
      exact_bitrate_def upt_rec [of "numeral _"] upt_rec [of "Suc _"] upt_rec [of 1]
      flip: numeral_2_eq_2)

lemma example_closest_875:
  "closest_candidate 875 (1, 6, 6, 3) [(1, 7, 5, 3), (1, 7, 6, 2), (1, 8, 5, 2)] = (1, 7, 6, 2)"
  by (simp add: sample_point_deviation_def sample_point_of_def)

lemma example_dev_accessors:
  "can_get_core_clock (example_dev gmf) = (0, 8000000)"
  "can_get_timing_min (example_dev gmf) = example_timing_min"
  "can_get_timing_max (example_dev gmf) = example_timing_max"
  "timing_ranges_ok example_timing_min example_timing_max"
  by (simp_all add: can_get_core_clock_def can_get_timing_min_def can_get_timing_max_def
      example_dev_def timing_ranges_ok_def example_timing_min_def example_timing_max_def)

lemma example_calc_500k:
  "can_calc_timing (example_dev None) example_timing_min 500000 875
   = Inr (\<lparr>sjw = 1, prop_seg = 7, phase_seg1 = 6, phase_seg2 = 2, prescaler = 1\<rparr>, 0)"
proof -
  have "can_calc_timing (example_dev None) example_timing_min 500000 875
      = Inr (example_timing_min
               \<lparr>prop_seg := 7, phase_seg1 := 6, phase_seg2 := 2, prescaler := 1\<rparr>, 0)"
    by (simp add: can_calc_timing_def example_dev_accessors example_candidates_500k
        example_closest_875 sample_point_deviation_def sample_point_of_def)
  then show ?thesis by (simp add: example_timing_min_def)
qed

lemma can_calc_timing_zero_sample_point:
  assumes "d \<noteq> 0" and "unat d = default_sample_point (unat bitrate)"
  shows "can_calc_timing dev res bitrate 0 = can_calc_timing dev res bitrate d"
proof -
  have sp: "(if (0::u16) = 0 then default_sample_point (unat bitrate) else unat (0::u16))
      = (if d = 0 then default_sample_point (unat bitrate) else unat d)"
    using assms by simp
  show ?thesis
    unfolding can_calc_timing_def sp ..
qed

subsection \<open>Frame filtering\<close>

text \<open>
  C2.  A frame matches a filter exactly when both carry the extended-id flag (bit 0 of
  their flags) or both lack it, and the identifiers agree on every bit set in the mask:
  \<open>(frame.id XOR filter.id) AND filter.mask = 0\<close>.  In particular a frame never matches
  a filter of the other id width, whatever the identifiers and the mask are.
\<close>

theorem can_frame_matches_filter_iff:
  "(can_frame_matches_filter frame flt \<longleftrightarrow>
      bit (frame_flags frame) 0 = bit (filter_flags flt) 0
      \<and> (frame_id frame XOR filter_id flt) AND filter_mask flt = 0)
   \<and> (bit (frame_flags frame) 0 \<noteq> bit (filter_flags flt) 0
        \<longrightarrow> \<not> can_frame_matches_filter frame flt)"
proof -
  have fr: "((ucast (frame_flags frame) :: u32) AND CAN_FRAME_IDE \<noteq> 0) = bit (frame_flags frame) 0"
    unfolding CAN_FRAME_IDE_def by (rule ide_flag_bit)
  have fl: "((ucast (filter_flags flt) :: u32) AND CAN_FILTER_IDE \<noteq> 0) = bit (filter_flags flt) 0"
    unfolding CAN_FILTER_IDE_def by (rule ide_flag_bit)
  show ?thesis
    using fr fl unfolding can_frame_matches_filter_def by auto
qed

theorem can_frame_matches_filter_iff_witness:
  "can_frame_matches_filter
     \<lparr>frame_id = 0x123, frame_dlc = 8, frame_flags = 0, frame_reserved = 0, frame_data = []\<rparr>
     \<lparr>filter_id = 0x120, filter_mask = 0x7F0, filter_flags = 0\<rparr>
   \<and> \<not> can_frame_matches_filter
     \<lparr>frame_id = 0x123, frame_dlc = 8, frame_flags = 1, frame_reserved = 0, frame_data = []\<rparr>
     \<lparr>filter_id = 0x123, filter_mask = 0, filter_flags = 0\<rparr>"
  using can_frame_matches_filter_iff
    [of "\<lparr>frame_id = 0x123, frame_dlc = 8, frame_flags = 0, frame_reserved = 0, frame_data = []\<rparr>"
        "\<lparr>filter_id = 0x120, filter_mask = 0x7F0, filter_flags = 0\<rparr>"]
    can_frame_matches_filter_iff
    [of "\<lparr>frame_id = 0x123, frame_dlc = 8, frame_flags = 1, frame_reserved = 0, frame_data = []\<rparr>"
        "\<lparr>filter_id = 0x123, filter_mask = 0, filter_flags = 0\<rparr>"]
  by simp

subsection \<open>Data length code conversions\<close>

text \<open>
  C3.  For every data length code from 0 to 15, converting it to a number of bytes and
  back gives the same code: \<open>can_bytes_to_dlc (can_dlc_to_bytes dlc) = dlc\<close>.
\<close>

theorem can_dlc_roundtrip:
  "dlc \<le> 15 \<Longrightarrow> can_bytes_to_dlc (can_dlc_to_bytes dlc) = dlc"
  by (drule u8_le_15_cases, elim insertE emptyE) (simp_all add: dlc_defs)

theorem can_dlc_roundtrip_witness:
  "(13::u8) \<le> 15 \<and> can_dlc_to_bytes 13 = 32 \<and> can_bytes_to_dlc 32 = 13"
  using can_dlc_roundtrip [of 13] by (simp add: dlc_defs)

text \<open>
  C4.  \<open>can_dlc_to_bytes\<close> is the fixed table: a code from 0 to 8 is its own number
  of bytes, and 9, 10, 11, 12, 13, 14, 15 give 12, 16, 20, 24, 32, 48, 64 bytes.  So no
  two codes of the data length code range 0..15 give the same length; in particular
  the mapping is injective on the codes above 8.
\<close>

theorem can_dlc_to_bytes_table:
  "(\<forall>dlc. dlc \<le> 8 \<longrightarrow> can_dlc_to_bytes dlc = dlc)
   \<and> can_dlc_to_bytes 9 = 12 \<and> can_dlc_to_bytes 10 = 16 \<and> can_dlc_to_bytes 11 = 20
   \<and> can_dlc_to_bytes 12 = 24 \<and> can_dlc_to_bytes 13 = 32 \<and> can_dlc_to_bytes 14 = 48
   \<and> can_dlc_to_bytes 15 = 64
   \<and> inj_on can_dlc_to_bytes {dlc. dlc \<le> 15}
   \<and> inj_on can_dlc_to_bytes {dlc. 8 < dlc \<and> dlc \<le> 15}"
proof -
  have low: "can_dlc_to_bytes dlc = dlc" if "dlc \<le> 8" for dlc
  proof -
    from that have "unat dlc \<le> 8" by (simp add: word_le_nat_alt)
    then have "dlc \<le> 15" by (simp add: word_le_nat_alt)
    from u8_le_15_cases [OF this] that show ?thesis
      by (elim insertE emptyE) (simp_all add: dlc_defs)
  qed
  have inj: "inj_on can_dlc_to_bytes {dlc. dlc \<le> 15}"
  proof (rule inj_on_inverseI)
    fix dlc :: u8
    assume "dlc \<in> {dlc. dlc \<le> 15}"
    then have "dlc \<le> 15" by simp
    then show "can_bytes_to_dlc (can_dlc_to_bytes dlc) = dlc"
      by (drule_tac u8_le_15_cases, elim insertE emptyE) (simp_all add: dlc_defs)
  qed
  have "inj_on can_dlc_to_bytes {dlc. 8 < dlc \<and> dlc \<le> 15}"
    by (rule inj_on_subset [OF inj]) auto
  with low inj show ?thesis
    by (simp add: dlc_defs)
qed

theorem can_dlc_to_bytes_table_witness:
  "can_dlc_to_bytes 5 = 5 \<and> can_dlc_to_bytes 9 = 12 \<and> can_dlc_to_bytes 15 = 64
   \<and> can_dlc_to_bytes 13 \<noteq> can_dlc_to_bytes 14"
proof -
  have "can_dlc_to_bytes 13 \<noteq> can_dlc_to_bytes 14"
  proof
    assume eq: "can_dlc_to_bytes 13 = can_dlc_to_bytes 14"
    have "inj_on can_dlc_to_bytes {dlc. 8 < dlc \<and> dlc \<le> 15}"
      using can_dlc_to_bytes_table by blast
    from inj_onD [OF this eq] show False by simp
  qed
  moreover have "can_dlc_to_bytes 5 = 5"
    using can_dlc_to_bytes_table by simp
  ultimately show ?thesis
    using can_dlc_to_bytes_table by simp
qed

text \<open>
  C10.  \<open>can_dlc_to_bytes\<close> is total on the 8-bit codes: the index used is never past
  the last entry of the table, so the read is always in bounds; every code above 15
  gives 64 bytes, and no code gives more than 64.
\<close>

theorem can_dlc_to_bytes_total:
  "dlc_index dlc < ARRAY_SIZE dlc_table
   \<and> dlc_lookup dlc = Some (can_dlc_to_bytes dlc)
   \<and> (15 < dlc \<longrightarrow> dlc_index dlc = ARRAY_SIZE dlc_table - 1 \<and> can_dlc_to_bytes dlc = 64)
   \<and> can_dlc_to_bytes dlc \<le> 64"
proof -
  have idx: "dlc_index dlc < ARRAY_SIZE dlc_table"
    by (simp add: dlc_index_min ARRAY_SIZE_def dlc_table_def)
  have big: "dlc_index dlc = ARRAY_SIZE dlc_table - 1 \<and> can_dlc_to_bytes dlc = 64" if "15 < dlc"
    using that
    by (simp add: can_dlc_to_bytes_def dlc_index_min word_less_nat_alt dlc_table_def
        ARRAY_SIZE_def min_def)
  have le: "can_dlc_to_bytes dlc \<le> 64"
  proof (cases "dlc \<le> 15")
    case True
    from u8_le_15_cases [OF this] show ?thesis
      by (elim insertE emptyE) (simp_all add: dlc_defs)
  next
    case False
    then have "15 < dlc" by simp
    with big show ?thesis by simp
  qed
  have lk: "dlc_lookup dlc = Some (can_dlc_to_bytes dlc)"
    using idx by (simp add: dlc_lookup_def can_dlc_to_bytes_def)
  from idx lk big le show ?thesis
    by blast
qed

theorem can_dlc_to_bytes_total_witness:
  "(15::u8) < 200 \<and> dlc_index 200 = 15 \<and> can_dlc_to_bytes 200 = 64
   \<and> dlc_lookup 255 = Some 64"
  using can_dlc_to_bytes_total [of 200] can_dlc_to_bytes_total [of 255]
  by (simp add: ARRAY_SIZE_def dlc_table_def)

subsection \<open>Transmitter delay compensation offset\<close>




subsection \<open>Maximum number of receive filters\<close>

text \<open>
  C9.  When the driver does not implement \<open>get_max_filters\<close> (the pointer is
  \<open>NULL\<close>), \<open>can_get_max_filters\<close> returns \<open>-1\<close>, the value documented as "not
  implemented by the driver", and so no count.  When the driver implements it, the
  result is what the driver reports for the requested id width; a positive report is
  the count.
\<close>

theorem can_get_max_filters_result:
  "(get_max_filters (dev_api dev) = None \<longrightarrow>
      can_get_max_filters dev ide = - 1
      \<and> max_filters_retval (can_get_max_filters dev ide) = NotImplemented)
   \<and> (\<forall>f. get_max_filters (dev_api dev) = Some f \<longrightarrow>
        can_get_max_filters dev ide = f (dev_data dev) ide
        \<and> (0 < f (dev_data dev) ide \<longrightarrow>
             max_filters_retval (can_get_max_filters dev ide)
               = Count (nat (f (dev_data dev) ide))))"
  by (simp add: can_get_max_filters_def max_filters_retval_def)

theorem can_get_max_filters_result_witness:
  "can_get_max_filters (example_dev None) True = - 1
   \<and> max_filters_retval (can_get_max_filters (example_dev None) True) = NotImplemented
   \<and> can_get_max_filters (example_dev (Some (\<lambda>_ ide. if ide then 14 else 28))) True = 14
   \<and> max_filters_retval
        (can_get_max_filters (example_dev (Some (\<lambda>_ ide. if ide then 14 else 28))) False)
      = Count 28"
proof -
  let ?absent = "example_dev None"
  let ?f = "\<lambda>(_::unit) ide. if ide then 14 else (28::int)"
  let ?present = "example_dev (Some ?f)"
  have "get_max_filters (dev_api ?absent) = None"
    by (simp add: example_dev_def)
  then have a: "can_get_max_filters ?absent True = - 1
      \<and> max_filters_retval (can_get_max_filters ?absent True) = NotImplemented"
    using can_get_max_filters_result [of ?absent True] by blast
  have p: "get_max_filters (dev_api ?present) = Some ?f"
    by (simp add: example_dev_def)
  have "can_get_max_filters ?present True = ?f (dev_data ?present) True"
    using p can_get_max_filters_result [of ?present True] by blast
  then have b: "can_get_max_filters ?present True = 14"
    by simp
  have "0 < ?f (dev_data ?present) False"
    by simp
  then have "max_filters_retval (can_get_max_filters ?present False)
      = Count (nat (?f (dev_data ?present) False))"
    using p can_get_max_filters_result [of ?present False] by blast
  then have c: "max_filters_retval (can_get_max_filters ?present False) = Count 28"
    by simp
  from a b c show ?thesis by blast
qed

subsection \<open>Timing calculation\<close>

text \<open>
  C1.  Let the core clock be readable and not zero, the bitrate not zero and the
  ranges well formed.  If some prescaler and segment split within the bounds gives the
  bitrate exactly, \<open>can_calc_timing\<close> succeeds, and the timing it returns lies within
  the bounds and satisfies
  \<open>core_clock = bitrate * prescaler * (1 + prop_seg + phase_seg1 + phase_seg2)\<close>
  exactly.  If no prescaler and segment split within the bounds gives the bitrate
  exactly, it fails with the unsupported error; it never returns an approximate
  bitrate.
\<close>

theorem can_calc_timing_exact:
  assumes clock: "can_get_core_clock dev = (0, clk)" and clk: "clk \<noteq> 0"
    and bitrate: "bitrate \<noteq> 0"
    and ranges: "timing_ranges_ok (can_get_timing_min dev) (can_get_timing_max dev)"
  shows
    "((\<exists>p a b c.
         unat (prescaler (can_get_timing_min dev)) \<le> p
         \<and> p \<le> unat (prescaler (can_get_timing_max dev))
         \<and> unat (prop_seg (can_get_timing_min dev)) \<le> a
         \<and> a \<le> unat (prop_seg (can_get_timing_max dev))
         \<and> unat (phase_seg1 (can_get_timing_min dev)) \<le> b
         \<and> b \<le> unat (phase_seg1 (can_get_timing_max dev))
         \<and> unat (phase_seg2 (can_get_timing_min dev)) \<le> c
         \<and> c \<le> unat (phase_seg2 (can_get_timing_max dev))
         \<and> unat clk = unat bitrate * p * (1 + a + b + c))
      \<longrightarrow> (\<exists>t e. can_calc_timing dev res bitrate sample_pnt = Inr (t, e)
            \<and> prescaler (can_get_timing_min dev) \<le> prescaler t
            \<and> prescaler t \<le> prescaler (can_get_timing_max dev)
            \<and> prop_seg (can_get_timing_min dev) \<le> prop_seg t
            \<and> prop_seg t \<le> prop_seg (can_get_timing_max dev)
            \<and> phase_seg1 (can_get_timing_min dev) \<le> phase_seg1 t
            \<and> phase_seg1 t \<le> phase_seg1 (can_get_timing_max dev)
            \<and> phase_seg2 (can_get_timing_min dev) \<le> phase_seg2 t
            \<and> phase_seg2 t \<le> phase_seg2 (can_get_timing_max dev)
            \<and> unat clk = unat bitrate * unat (prescaler t)
                 * (1 + unat (prop_seg t) + unat (phase_seg1 t) + unat (phase_seg2 t))))
     \<and> (\<not> (\<exists>p a b c.
         unat (prescaler (can_get_timing_min dev)) \<le> p
         \<and> p \<le> unat (prescaler (can_get_timing_max dev))
         \<and> unat (prop_seg (can_get_timing_min dev)) \<le> a
         \<and> a \<le> unat (prop_seg (can_get_timing_max dev))
         \<and> unat (phase_seg1 (can_get_timing_min dev)) \<le> b
         \<and> b \<le> unat (phase_seg1 (can_get_timing_max dev))
         \<and> unat (phase_seg2 (can_get_timing_min dev)) \<le> c
         \<and> c \<le> unat (phase_seg2 (can_get_timing_max dev))
         \<and> unat clk = unat bitrate * p * (1 + a + b + c))
      \<longrightarrow> can_calc_timing dev res bitrate sample_pnt = Inl Unsupported)"
proof -
  let ?mn = "can_get_timing_min dev" and ?mx = "can_get_timing_max dev"
  let ?cands = "timing_candidates (unat clk) ?mn ?mx (unat bitrate)"
  let ?sp = "if sample_pnt = 0 then default_sample_point (unat bitrate) else unat sample_pnt"
  from clk have pos: "0 < unat clk" by (simp add: unat_gt_0)
  have mem: "(p, a, b, c) \<in> set ?cands \<longleftrightarrow>
     unat (prescaler ?mn) \<le> p \<and> p \<le> unat (prescaler ?mx)
     \<and> unat (prop_seg ?mn) \<le> a \<and> a \<le> unat (prop_seg ?mx)
     \<and> unat (phase_seg1 ?mn) \<le> b \<and> b \<le> unat (phase_seg1 ?mx)
     \<and> unat (phase_seg2 ?mn) \<le> c \<and> c \<le> unat (phase_seg2 ?mx)
     \<and> unat clk = unat bitrate * p * (1 + a + b + c)" for p a b c
    unfolding timing_candidates_iff exact_bitrate_iff [OF pos] ..
  have unfold: "can_calc_timing dev res bitrate sample_pnt =
      (case ?cands of
         [] \<Rightarrow> Inl Unsupported
       | cand # cands \<Rightarrow>
           (case closest_candidate ?sp cand cands of
              (p, a, b, c) \<Rightarrow>
                Inr (res\<lparr>prop_seg := of_nat a, phase_seg1 := of_nat b,
                         phase_seg2 := of_nat c, prescaler := of_nat p\<rparr>,
                     sample_point_deviation ?sp (p, a, b, c))))"
    using clock bitrate ranges by (simp add: can_calc_timing_def Let_def)
  show ?thesis
  proof (cases ?cands)
    case Nil
    then have "\<And>p a b c. (p, a, b, c) \<notin> set ?cands" by simp
    then have none: "\<not> (\<exists>p a b c.
         unat (prescaler ?mn) \<le> p \<and> p \<le> unat (prescaler ?mx)
         \<and> unat (prop_seg ?mn) \<le> a \<and> a \<le> unat (prop_seg ?mx)
         \<and> unat (phase_seg1 ?mn) \<le> b \<and> b \<le> unat (phase_seg1 ?mx)
         \<and> unat (phase_seg2 ?mn) \<le> c \<and> c \<le> unat (phase_seg2 ?mx)
         \<and> unat clk = unat bitrate * p * (1 + a + b + c))"
      unfolding mem by blast
    from Nil unfold have "can_calc_timing dev res bitrate sample_pnt = Inl Unsupported"
      by simp
    with none show ?thesis by blast
  next
    case (Cons cand cands)
    obtain p a b c where best: "closest_candidate ?sp cand cands = (p, a, b, c)"
      by (metis prod_cases4)
    have "closest_candidate ?sp cand cands \<in> set ?cands"
      unfolding Cons by (rule closest_candidate_mem)
    with best have "(p, a, b, c) \<in> set ?cands" by simp
    then have bounds:
        "unat (prescaler ?mn) \<le> p" "p \<le> unat (prescaler ?mx)"
        "unat (prop_seg ?mn) \<le> a" "a \<le> unat (prop_seg ?mx)"
        "unat (phase_seg1 ?mn) \<le> b" "b \<le> unat (phase_seg1 ?mx)"
        "unat (phase_seg2 ?mn) \<le> c" "c \<le> unat (phase_seg2 ?mx)"
      and exact: "unat clk = unat bitrate * p * (1 + a + b + c)"
      unfolding mem by blast+
    let ?t = "res\<lparr>prop_seg := of_nat a, phase_seg1 := of_nat b,
                   phase_seg2 := of_nat c, prescaler := of_nat p\<rparr>"
    have fields: "unat (prescaler ?t) = p" "unat (prop_seg ?t) = a"
        "unat (phase_seg1 ?t) = b" "unat (phase_seg2 ?t) = c"
      using bounds by (simp_all add: of_nat_u16_bounded)
    have res: "can_calc_timing dev res bitrate sample_pnt
        = Inr (?t, sample_point_deviation ?sp (p, a, b, c))"
      using unfold Cons best by simp
    have "prescaler ?mn \<le> prescaler ?t \<and> prescaler ?t \<le> prescaler ?mx
        \<and> prop_seg ?mn \<le> prop_seg ?t \<and> prop_seg ?t \<le> prop_seg ?mx
        \<and> phase_seg1 ?mn \<le> phase_seg1 ?t \<and> phase_seg1 ?t \<le> phase_seg1 ?mx
        \<and> phase_seg2 ?mn \<le> phase_seg2 ?t \<and> phase_seg2 ?t \<le> phase_seg2 ?mx
        \<and> unat clk = unat bitrate * unat (prescaler ?t)
             * (1 + unat (prop_seg ?t) + unat (phase_seg1 ?t) + unat (phase_seg2 ?t))"
      unfolding word_le_nat_alt fields using bounds exact by blast
    with res have "\<exists>t e. can_calc_timing dev res bitrate sample_pnt = Inr (t, e)
            \<and> prescaler ?mn \<le> prescaler t \<and> prescaler t \<le> prescaler ?mx
            \<and> prop_seg ?mn \<le> prop_seg t \<and> prop_seg t \<le> prop_seg ?mx
            \<and> phase_seg1 ?mn \<le> phase_seg1 t \<and> phase_seg1 t \<le> phase_seg1 ?mx
            \<and> phase_seg2 ?mn \<le> phase_seg2 t \<and> phase_seg2 t \<le> phase_seg2 ?mx
            \<and> unat clk = unat bitrate * unat (prescaler t)
                 * (1 + unat (prop_seg t) + unat (phase_seg1 t) + unat (phase_seg2 t))"
      by blast
    moreover have "\<exists>p a b c.
         unat (prescaler ?mn) \<le> p \<and> p \<le> unat (prescaler ?mx)
         \<and> unat (prop_seg ?mn) \<le> a \<and> a \<le> unat (prop_seg ?mx)
         \<and> unat (phase_seg1 ?mn) \<le> b \<and> b \<le> unat (phase_seg1 ?mx)
         \<and> unat (phase_seg2 ?mn) \<le> c \<and> c \<le> unat (phase_seg2 ?mx)
         \<and> unat clk = unat bitrate * p * (1 + a + b + c)"
      using bounds exact by blast
    ultimately show ?thesis by blast
  qed
qed

theorem can_calc_timing_exact_witness:
  "can_get_core_clock (example_dev None) = (0, 8000000)
   \<and> timing_ranges_ok (can_get_timing_min (example_dev None))
        (can_get_timing_max (example_dev None))
   \<and> (\<exists>t e. can_calc_timing (example_dev None) example_timing_min 500000 875 = Inr (t, e)
        \<and> unat (8000000::u32) = unat (500000::u32) * unat (prescaler t)
             * (1 + unat (prop_seg t) + unat (phase_seg1 t) + unat (phase_seg2 t)))"
proof -
  let ?dev = "example_dev None :: unit device"
  have clock: "can_get_core_clock ?dev = (0, 8000000)"
    and ranges: "timing_ranges_ok (can_get_timing_min ?dev) (can_get_timing_max ?dev)"
    by (simp_all add: example_dev_accessors)
  have sol: "\<exists>p a b c.
         unat (prescaler (can_get_timing_min ?dev)) \<le> p
         \<and> p \<le> unat (prescaler (can_get_timing_max ?dev))
         \<and> unat (prop_seg (can_get_timing_min ?dev)) \<le> a
         \<and> a \<le> unat (prop_seg (can_get_timing_max ?dev))
         \<and> unat (phase_seg1 (can_get_timing_min ?dev)) \<le> b
         \<and> b \<le> unat (phase_seg1 (can_get_timing_max ?dev))
         \<and> unat (phase_seg2 (can_get_timing_min ?dev)) \<le> c
         \<and> c \<le> unat (phase_seg2 (can_get_timing_max ?dev))
         \<and> unat (8000000::u32) = unat (500000::u32) * p * (1 + a + b + c)"
    apply (rule exI [of _ 1], rule exI [of _ 7], rule exI [of _ 6], rule exI [of _ 2])
    apply (simp add: example_dev_accessors example_timing_min_def example_timing_max_def)
    done
  have "(8000000::u32) \<noteq> 0" "(500000::u32) \<noteq> 0" by simp_all
  from can_calc_timing_exact [OF clock this ranges, of example_timing_min 875] sol
  have "\<exists>t e. can_calc_timing ?dev example_timing_min 500000 875 = Inr (t, e)
        \<and> unat (8000000::u32) = unat (500000::u32) * unat (prescaler t)
             * (1 + unat (prop_seg t) + unat (phase_seg1 t) + unat (phase_seg2 t))"
    by blast
  with clock ranges show ?thesis by blast
qed

text \<open>
  C6.  Called with a sample point of 0, \<open>can_calc_timing\<close> behaves as if called with
  750 permille when the bitrate is above 800 kbit/s, with 800 permille when it is above
  500 kbit/s, and with 875 permille otherwise.
\<close>

theorem can_calc_timing_default_sample_point:
  "can_calc_timing dev res bitrate 0 =
     can_calc_timing dev res bitrate
       (if 800000 < bitrate then 750 else if 500000 < bitrate then 800 else 875)"
  by (rule can_calc_timing_zero_sample_point)
    (simp_all add: default_sample_point_def word_less_nat_alt)

theorem can_calc_timing_default_sample_point_witness:
  "can_calc_timing (example_dev None) example_timing_min 1000000 0
     = can_calc_timing (example_dev None) example_timing_min 1000000 750
   \<and> can_calc_timing (example_dev None) example_timing_min 800000 0
     = can_calc_timing (example_dev None) example_timing_min 800000 800
   \<and> can_calc_timing (example_dev None) example_timing_min 500000 0
     = can_calc_timing (example_dev None) example_timing_min 500000 875
   \<and> can_calc_timing (example_dev None) example_timing_min 500000 0
     = Inr (\<lparr>sjw = 1, prop_seg = 7, phase_seg1 = 6, phase_seg2 = 2, prescaler = 1\<rparr>, 0)"
  using can_calc_timing_default_sample_point [of "example_dev None" example_timing_min 1000000]
    can_calc_timing_default_sample_point [of "example_dev None" example_timing_min 800000]
    can_calc_timing_default_sample_point [of "example_dev None" example_timing_min 500000]
  by (simp add: example_calc_500k)

text \<open>
  C8.  For any given segment split, when the core clock is readable and the bitrate
  is not zero, \<open>can_calc_prescaler\<close> does not fail: it leaves the segments and the
  synchronisation jump width as given, fills in the prescaler with the core clock
  divided by the bitrate times the number of time quanta, and returns the remainder of
  that division, which is not negative, also when the bitrate is not met exactly.
\<close>

theorem can_calc_prescaler_result:
  assumes clock: "can_get_core_clock dev = (0, clk)" and bitrate: "bitrate \<noteq> 0"
  shows "\<exists>t e. can_calc_prescaler dev timing bitrate = Inr (t, e)
      \<and> sjw t = sjw timing \<and> prop_seg t = prop_seg timing
      \<and> phase_seg1 t = phase_seg1 timing \<and> phase_seg2 t = phase_seg2 timing
      \<and> prescaler t = of_nat (unat clk div (unat bitrate
            * (1 + unat (prop_seg timing) + unat (phase_seg1 timing) + unat (phase_seg2 timing))))
      \<and> e = int (unat clk mod (unat bitrate
            * (1 + unat (prop_seg timing) + unat (phase_seg1 timing) + unat (phase_seg2 timing))))
      \<and> 0 \<le> e
      \<and> int (unat clk) = int (unat clk div (unat bitrate
            * (1 + unat (prop_seg timing) + unat (phase_seg1 timing) + unat (phase_seg2 timing))))
          * int (unat bitrate
            * (1 + unat (prop_seg timing) + unat (phase_seg1 timing) + unat (phase_seg2 timing)))
          + e"
proof -
  define d where "d = unat bitrate
      * (1 + unat (prop_seg timing) + unat (phase_seg1 timing) + unat (phase_seg2 timing))"
  have res: "can_calc_prescaler dev timing bitrate
      = Inr (timing\<lparr>prescaler := of_nat (unat clk div d)\<rparr>, int (unat clk mod d))"
    using clock bitrate by (simp add: can_calc_prescaler_def Let_def d_def)
  have "unat clk = unat clk div d * d + unat clk mod d"
    by simp
  then have "int (unat clk) = int (unat clk div d * d + unat clk mod d)"
    by (rule arg_cong)
  then have split: "int (unat clk) = int (unat clk div d) * int d + int (unat clk mod d)"
    by (simp only: of_nat_add of_nat_mult)
  have "\<exists>t e. can_calc_prescaler dev timing bitrate = Inr (t, e)
      \<and> sjw t = sjw timing \<and> prop_seg t = prop_seg timing
      \<and> phase_seg1 t = phase_seg1 timing \<and> phase_seg2 t = phase_seg2 timing
      \<and> prescaler t = of_nat (unat clk div d)
      \<and> e = int (unat clk mod d) \<and> 0 \<le> e
      \<and> int (unat clk) = int (unat clk div d) * int d + e"
    using res split by simp
  then show ?thesis unfolding d_def .
qed

theorem can_calc_prescaler_result_witness:
  "can_get_core_clock (example_dev None) = (0, 8000000)
   \<and> can_calc_prescaler (example_dev None)
        \<lparr>sjw = 1, prop_seg = 7, phase_seg1 = 6, phase_seg2 = 2, prescaler = 0\<rparr> 125000
      = Inr (\<lparr>sjw = 1, prop_seg = 7, phase_seg1 = 6, phase_seg2 = 2, prescaler = 4\<rparr>, 0)
   \<and> can_calc_prescaler (example_dev None)
        \<lparr>sjw = 1, prop_seg = 7, phase_seg1 = 6, phase_seg2 = 2, prescaler = 0\<rparr> 300000
      = Inr (\<lparr>sjw = 1, prop_seg = 7, phase_seg1 = 6, phase_seg2 = 2, prescaler = 1\<rparr>, 3200000)"
proof -
  let ?dev = "example_dev None :: unit device"
  let ?t = "\<lparr>sjw = 1, prop_seg = 7, phase_seg1 = 6, phase_seg2 = 2, prescaler = 0\<rparr>"
  have clock: "can_get_core_clock ?dev = (0, 8000000)"
    by (simp add: example_dev_accessors)
  have a: "can_calc_prescaler ?dev ?t 125000
      = Inr (\<lparr>sjw = 1, prop_seg = 7, phase_seg1 = 6, phase_seg2 = 2, prescaler = 4\<rparr>, 0)"
    using can_calc_prescaler_result [OF clock, of 125000 ?t]
    by (auto simp add: can_timing.equality)
  have b: "can_calc_prescaler ?dev ?t 300000
      = Inr (\<lparr>sjw = 1, prop_seg = 7, phase_seg1 = 6, phase_seg2 = 2, prescaler = 1\<rparr>, 3200000)"
    using can_calc_prescaler_result [OF clock, of 300000 ?t]
    by (auto simp add: can_timing.equality)
  from clock a b show ?thesis by blast
qed

end
